theory Spec2Isabelle
  imports Main "HOL-Library.Sublist"
begin

section \<open>PutObject of s3verify (put-object.go)\<close>

text \<open>
  A shallow embedding of \<^verbatim>\<open>put-object.go\<close>: the request builder
  \<^verbatim>\<open>newPutObjectReq\<close>, the response verifier \<^verbatim>\<open>putObjectVerify\<close> with its three
  sub-checks, and the two test steps \<^verbatim>\<open>mainPutObjectPrepared\<close> and
  \<^verbatim>\<open>mainPutObjectUnPrepared\<close>.

  Conventions.
  \<^item> A Go \<^verbatim>\<open>string\<close> and a Go \<^verbatim>\<open>[]byte\<close> are both sequences of bytes; a HOL
    \<^typ>\<open>char\<close> is one byte, so both are \<^typ>\<open>string\<close> and the conversions
    \<^verbatim>\<open>[]byte(s)\<close> and \<^verbatim>\<open>string(b)\<close> are the identity.
  \<^item> Go's \<^verbatim>\<open>int\<close> and \<^verbatim>\<open>int64\<close> are \<^typ>\<open>int\<close>: the file compares, copies and
    prints integers and counts from 0 to 101, it never does arithmetic that could wrap.
  \<^item> A Go \<^verbatim>\<open>error\<close> is its message; a nil error is \<^const>\<open>None\<close>.
  \<^item> A run-time panic is a value of type \<open>panic\<close>.
\<close>

subsection \<open>Errors and panics\<close>

datatype error = Error (errorMessage: string)

datatype panic = IndexOutOfRange | NilPointerDereference

subsection \<open>Formatting: strconv.Itoa and the verbs of fmt\<close>

definition digit :: "nat \<Rightarrow> char" where
  "digit d = ''0123456789'' ! d"

function natDigits :: "nat \<Rightarrow> string" where
  "natDigits n = (if n < 10 then [digit n] else natDigits (n div 10) @ [digit (n mod 10)])"
  by pat_completeness auto
termination
  by (relation "measure (\<lambda>n. n)") auto

declare natDigits.simps [simp del]

text \<open>\<^verbatim>\<open>strconv.Itoa(i)\<close>, which is also what \<^verbatim>\<open>%v\<close> and \<^verbatim>\<open>%d\<close> print for an int.\<close>

definition Itoa :: "int \<Rightarrow> string" where
  "Itoa i = (if i < 0 then CHR ''-'' # natDigits (nat (- i)) else natDigits (nat i))"

text \<open>\<^verbatim>\<open>%02d\<close>: the decimal form padded with zeros to two columns, the sign counted.\<close>

definition fmt02d :: "int \<Rightarrow> string" where
  "fmt02d i = (if 0 \<le> i \<and> i < 10 then CHR ''0'' # Itoa i else Itoa i)"

subsection \<open>encoding/hex and encoding/base64\<close>

definition hextable :: string where
  "hextable = ''0123456789abcdef''"

text \<open>\<^verbatim>\<open>hex.EncodeToString\<close>: two lower-case digits for each byte, high nibble first.\<close>

fun hex_EncodeToString :: "string \<Rightarrow> string" where
  "hex_EncodeToString [] = []"
| "hex_EncodeToString (c # cs) =
     hextable ! (of_char c div 16) # hextable ! (of_char c mod 16) # hex_EncodeToString cs"

definition encodeStd :: string where
  "encodeStd = ''ABCDEFGHIJKLMNOPQRSTUVWXYZabcdefghijklmnopqrstuvwxyz0123456789+/''"

text \<open>
  \<^verbatim>\<open>base64.StdEncoding.EncodeToString\<close>: each group of three bytes gives four characters
  of the standard alphabet; a last group of one or two bytes is padded with \<^verbatim>\<open>=\<close>.
\<close>

fun base64_EncodeToString :: "string \<Rightarrow> string" where
  "base64_EncodeToString [] = []"
| "base64_EncodeToString [a] =
     (let v = of_char a * 65536 :: nat
      in [encodeStd ! (v div 262144 mod 64), encodeStd ! (v div 4096 mod 64), CHR ''='', CHR ''=''])"
| "base64_EncodeToString [a, b] =
     (let v = of_char a * 65536 + of_char b * 256 :: nat
      in [encodeStd ! (v div 262144 mod 64), encodeStd ! (v div 4096 mod 64),
          encodeStd ! (v div 64 mod 64), CHR ''=''])"
| "base64_EncodeToString (a # b # c # rest) =
     (let v = of_char a * 65536 + of_char b * 256 + of_char c :: nat
      in encodeStd ! (v div 262144 mod 64) # encodeStd ! (v div 4096 mod 64) #
         encodeStd ! (v div 64 mod 64) # encodeStd ! (v mod 64) # base64_EncodeToString rest)"

subsection \<open>net/http: headers\<close>

text \<open>
  \<^verbatim>\<open>http.Header\<close> is \<^verbatim>\<open>map[string][]string\<close>. \<^verbatim>\<open>Set\<close> and \<^verbatim>\<open>Get\<close> go through
  \<^verbatim>\<open>textproto.CanonicalMIMEHeaderKey\<close>: a key made of header-field bytes only has the
  first letter and every letter after a hyphen in upper case and the others in lower
  case; any other key is left as it is.
\<close>

type_synonym Header = "string \<rightharpoonup> string list"

definition isLower :: "char \<Rightarrow> bool" where
  "isLower c = (97 \<le> (of_char c :: nat) \<and> (of_char c :: nat) \<le> 122)"

definition isUpper :: "char \<Rightarrow> bool" where
  "isUpper c = (65 \<le> (of_char c :: nat) \<and> (of_char c :: nat) \<le> 90)"

definition isDigit :: "char \<Rightarrow> bool" where
  "isDigit c = (48 \<le> (of_char c :: nat) \<and> (of_char c :: nat) \<le> 57)"

definition validHeaderFieldByte :: "char \<Rightarrow> bool" where
  "validHeaderFieldByte c = (isLower c \<or> isUpper c \<or> isDigit c \<or> c \<in> set ''!#$%&*+-.^_`|~'' \<or> of_char c = (39::nat))"

definition toUpper :: "char \<Rightarrow> char" where
  "toUpper c = (if isLower c then char_of (of_char c - (32::nat)) else c)"

definition toLower :: "char \<Rightarrow> char" where
  "toLower c = (if isUpper c then char_of (of_char c + (32::nat)) else c)"

fun canonicalLetters :: "bool \<Rightarrow> string \<Rightarrow> string" where
  "canonicalLetters upper [] = []"
| "canonicalLetters upper (c # cs) =
     (if upper then toUpper c else toLower c) # canonicalLetters (c = CHR ''-'') cs"

definition CanonicalMIMEHeaderKey :: "string \<Rightarrow> string" where
  "CanonicalMIMEHeaderKey s = (if list_all validHeaderFieldByte s then canonicalLetters True s else s)"

definition Header_Set :: "Header \<Rightarrow> string \<Rightarrow> string \<Rightarrow> Header" where
  "Header_Set h key v = h(CanonicalMIMEHeaderKey key \<mapsto> [v])"

definition Header_Get :: "Header \<Rightarrow> string \<Rightarrow> string" where
  "Header_Get h key =
     (case h (CanonicalMIMEHeaderKey key) of None \<Rightarrow> [] | Some [] \<Rightarrow> [] | Some (v # _) \<Rightarrow> v)"

subsection \<open>bytes.Reader\<close>

text \<open>
  A \<^verbatim>\<open>bytes.Reader\<close> reads from its slice \<^verbatim>\<open>s\<close>, starting at the offset \<^verbatim>\<open>i\<close> (the
  fields \<open>Reader_s\<close> and \<open>Reader_i\<close>); \<^verbatim>\<open>bytes.NewReader(b)\<close> starts at offset 0.
  Reading never fails; what is left to read is the slice from the offset on.
\<close>

record bytes_Reader =
  Reader_s :: string
  Reader_i :: nat

definition bytes_NewReader :: "string \<Rightarrow> bytes_Reader" where
  "bytes_NewReader b = \<lparr>Reader_s = b, Reader_i = 0\<rparr>"

definition unread :: "bytes_Reader \<Rightarrow> string" where
  "unread r = drop (Reader_i r) (Reader_s r)"

text \<open>Reading a \<^verbatim>\<open>bytes.Reader\<close> to the end: the bytes left, and the reader at its end.\<close>

definition readToEnd :: "bytes_Reader \<Rightarrow> string \<times> bytes_Reader" where
  "readToEnd r = (unread r, r\<lparr>Reader_i := max (Reader_i r) (length (Reader_s r))\<rparr>)"

subsection \<open>The request\<close>

text \<open>
  Modelled from the spec: the type \<^verbatim>\<open>Request\<close> is declared in another file of the
  repository. The spec's data model gives it a target bucket, a target object, headers, a
  body content length and a body stream; the field names are those \<^verbatim>\<open>newPutObjectReq\<close>
  assigns. \<^verbatim>\<open>Request{}\<close> is the zero value; its body is the nil reader.
\<close>

record Request =
  bucketName :: string
  objectName :: string
  customHeader :: Header
  contentLength :: int
  contentBody :: "bytes_Reader option"

definition Request_zero :: Request where
  "Request_zero = \<lparr>bucketName = [], objectName = [], customHeader = Map.empty,
     contentLength = 0, contentBody = None\<rparr>"

subsection \<open>The hasher\<close>

text \<open>
  Modelled from the spec: \<^verbatim>\<open>computeHash\<close> is defined in another file of the repository.
  The spec (Hasher): given a byte payload, it produces the checksum digest, the content
  digest and the byte length, the two digests computed over the identical byte sequence
  and the length the exact count of bytes read; it reads the payload once and leaves it
  re-readable by resetting the cursor; a read error is surfaced. The two digest
  algorithms (\<^verbatim>\<open>md5\<close> and \<^verbatim>\<open>sha256\<close> of the standard library) are parameters. A
  \<^verbatim>\<open>bytes.Reader\<close> has no read error, so the error case never arises on it.
\<close>

definition computeHash ::
  "(string \<Rightarrow> string) \<Rightarrow> (string \<Rightarrow> string) \<Rightarrow> bytes_Reader
     \<Rightarrow> (error + string \<times> string \<times> int) \<times> bytes_Reader" where
  "computeHash md5 sha256 reader =
     (let (payload, reader') = readToEnd reader
      in (Inr (md5 payload, sha256 payload, int (length payload)), reader'\<lparr>Reader_i := 0\<rparr>))"

subsection \<open>Responses\<close>

text \<open>
  The body of an \<^verbatim>\<open>http.Response\<close> is an \<^verbatim>\<open>io.ReadCloser\<close>, read once from front to
  back: \<open>pending\<close> are the bytes not read yet, and \<open>failure\<close> is how the stream ends
  after them, \<^const>\<open>None\<close> for \<^verbatim>\<open>io.EOF\<close> and \<open>Some e\<close> for the read error \<open>e\<close>.
  \<open>fullReads\<close> counts, as a test double would, how many times the stream has been read
  to its end. The interface value can be nil, which is \<^const>\<open>None\<close> in the field
  \<open>ResBody\<close>.
\<close>

record ReadCloser =
  pending :: string
  failure :: "error option"
  fullReads :: nat

record Response =
  StatusCode :: int
  Header :: Header
  ResBody :: "ReadCloser option"

text \<open>
  \<^verbatim>\<open>ioutil.ReadAll(r)\<close> calls \<^verbatim>\<open>r.Read\<close> until the end of the stream or an error and
  returns the bytes read with the error (nil at \<^verbatim>\<open>io.EOF\<close>). On the nil interface the
  call of \<^verbatim>\<open>Read\<close> panics. The reader is left with nothing pending and one more
  full read.
\<close>

definition ioutil_ReadAll ::
  "ReadCloser option \<Rightarrow> (panic + string \<times> error option) \<times> ReadCloser option" where
  "ioutil_ReadAll r =
     (case r of
        None \<Rightarrow> (Inl NilPointerDereference, None)
      | Some b \<Rightarrow> (Inr (pending b, failure b), Some (b\<lparr>pending := [], fullReads := fullReads b + 1\<rparr>)))"

subsection \<open>The collaborators\<close>

text \<open>
  What \<^verbatim>\<open>put-object.go\<close> takes from the rest of the program and from the standard
  library, as parameters. \<open>'w\<close> is the state of the world outside the program: the server
  behind the transport, and the clock that seeds the random source.
  \<^item> \<open>execRequest\<close> is \<^verbatim>\<open>config.execRequest(method, req)\<close>: an error or a response.
  \<^item> \<open>randString\<close> is
    \<^verbatim>\<open>randString(60, rand.NewSource(time.Now().UnixNano()), "")\<close>.
  \<^item> \<open>verifyStandardHeaders\<close> is the validator of the standard response headers.
  \<^item> \<open>md5Sum\<close> and \<open>sha256Sum\<close> are the two digests \<^verbatim>\<open>computeHash\<close> computes.
  \<^item> \<open>appUserAgent\<close> and \<open>globalTotalNumTest\<close> are globals of the program.
\<close>

record 'w collaborators =
  md5Sum :: "string \<Rightarrow> string"
  sha256Sum :: "string \<Rightarrow> string"
  appUserAgent :: string
  globalTotalNumTest :: int
  verifyStandardHeaders :: "Header \<Rightarrow> error option"
  randString :: "'w \<Rightarrow> string \<times> 'w"
  execRequest :: "string \<Rightarrow> Request \<Rightarrow> 'w \<Rightarrow> (error + Response) \<times> 'w"

subsection \<open>newPutObjectReq\<close>

definition newPutObjectReq ::
  "'w collaborators \<Rightarrow> string \<Rightarrow> string \<Rightarrow> string \<Rightarrow> error + Request" where
  "newPutObjectReq env bucket object objectData =
     (let putObjectReq = Request_zero\<lparr>customHeader := Map.empty\<rparr>;
          putObjectReq = putObjectReq\<lparr>bucketName := bucket\<rparr>;
          putObjectReq = putObjectReq\<lparr>objectName := object\<rparr>;
          reader = bytes_NewReader objectData
      in case computeHash (md5Sum env) (sha256Sum env) reader of
           (Inl err, reader) \<Rightarrow> Inl err
         | (Inr (md5, sha256, len), reader) \<Rightarrow>
             (let putObjectReq = putObjectReq\<lparr>customHeader :=
                    Header_Set (customHeader putObjectReq) ''Content-MD5'' (base64_EncodeToString md5)\<rparr>;
                  putObjectReq = putObjectReq\<lparr>customHeader :=
                    Header_Set (customHeader putObjectReq) ''X-Amz-Content-Sha256'' (hex_EncodeToString sha256)\<rparr>;
                  putObjectReq = putObjectReq\<lparr>customHeader :=
                    Header_Set (customHeader putObjectReq) ''User-Agent'' (appUserAgent env)\<rparr>;
                  putObjectReq = putObjectReq\<lparr>contentLength := len\<rparr>;
                  putObjectReq = putObjectReq\<lparr>contentBody := Some reader\<rparr>
              in Inr putObjectReq))"

subsection \<open>putObjectVerify and its sub-checks\<close>

definition verifyStatusPutObject :: "int \<Rightarrow> int \<Rightarrow> error option" where
  "verifyStatusPutObject respStatusCode expectedStatusCode =
     (if respStatusCode \<noteq> expectedStatusCode
      then Some (Error (''Unexpected Response Status Code: wanted '' @ Itoa expectedStatusCode @
                        '', got '' @ Itoa respStatusCode))
      else None)"

text \<open>
  The reader is consumed through the interface value, so the sub-check returns it too.
  \<^verbatim>\<open>bytes.Equal(body, []byte{})\<close> holds exactly for a body of length 0.
\<close>

definition verifyBodyPutObject ::
  "ReadCloser option \<Rightarrow> (panic + error option) \<times> ReadCloser option" where
  "verifyBodyPutObject resBody =
     (case ioutil_ReadAll resBody of
        (Inl p, resBody) \<Rightarrow> (Inl p, resBody)
      | (Inr (body, Some err), resBody) \<Rightarrow> (Inr (Some err), resBody)
      | (Inr (body, None), resBody) \<Rightarrow>
          (if body \<noteq> []
           then (Inr (Some (Error
                  (''Unexpected Body Recieved: expected empty body but recieved: '' @ body))), resBody)
           else (Inr None, resBody)))"

definition verifyHeaderPutObject :: "'w collaborators \<Rightarrow> Header \<Rightarrow> error option" where
  "verifyHeaderPutObject env header =
     (case verifyStandardHeaders env header of Some err \<Rightarrow> Some err | None \<Rightarrow> None)"

text \<open>\<open>res\<close> is a pointer: the response comes back with what is left of its body.\<close>

definition putObjectVerify ::
  "'w collaborators \<Rightarrow> Response \<Rightarrow> int \<Rightarrow> (panic + error option) \<times> Response" where
  "putObjectVerify env res expectedStatusCode =
     (case verifyHeaderPutObject env (Header res) of
        Some err \<Rightarrow> (Inr (Some err), res)
      | None \<Rightarrow>
          (case verifyStatusPutObject (StatusCode res) expectedStatusCode of
             Some err \<Rightarrow> (Inr (Some err), res)
           | None \<Rightarrow>
               (case verifyBodyPutObject (ResBody res) of
                  (Inl p, resBody) \<Rightarrow> (Inl p, res\<lparr>ResBody := resBody\<rparr>)
                | (Inr (Some err), resBody) \<Rightarrow> (Inr (Some err), res\<lparr>ResBody := resBody\<rparr>)
                | (Inr None, resBody) \<Rightarrow> (Inr None, res\<lparr>ResBody := resBody\<rparr>))))"

subsection \<open>The registries and the trace of external calls\<close>

text \<open>
  Modelled from the spec: the types \<^verbatim>\<open>ObjectInfo\<close> and \<^verbatim>\<open>BucketInfo\<close> are declared in
  another file of the repository. An object descriptor has a key and a body; of a bucket
  the file reads the name only.
\<close>

record ObjectInfo =
  Key :: string
  Body :: string

record BucketInfo =
  Name :: string

text \<open>
  The calls that leave the file and return nothing to it are recorded, in order, as
  events: the spinner \<^verbatim>\<open>scanBar\<close>, the reporter \<^verbatim>\<open>printMessage\<close>, the release of a
  response by \<^verbatim>\<open>closeResponse\<close>, and every request handed to the transport.
\<close>

datatype event =
    ScanBar string
  | ExecRequest string Request
  | PrintMessage string "error option"
  | CloseResponse Response

text \<open>
  The globals the file reads and writes (\<^verbatim>\<open>s3verifyBuckets\<close> is a global of another
  file), the trace, and the world outside.
\<close>

record 'w state =
  s3verifyBuckets :: "BucketInfo list"
  s3verifyObjects :: "ObjectInfo list"
  preparedObjects :: "ObjectInfo list"
  copyObjects :: "ObjectInfo list"
  trace :: "event list"
  world :: 'w

definition emit :: "event \<Rightarrow> 'w state \<Rightarrow> 'w state" where
  "emit e st = st\<lparr>trace := trace st @ [e]\<rparr>"

definition scanBar :: "string \<Rightarrow> 'w state \<Rightarrow> 'w state" where
  "scanBar message st = emit (ScanBar message) st"

definition printMessage :: "string \<Rightarrow> error option \<Rightarrow> 'w state \<Rightarrow> 'w state" where
  "printMessage message err st = emit (PrintMessage message err) st"

definition closeResponse :: "Response \<Rightarrow> 'w state \<Rightarrow> 'w state" where
  "closeResponse res st = emit (CloseResponse res) st"

text \<open>
  The deferred calls of a function run when it returns or panics, the last deferred
  first; the list holds the last deferred response at its head.
\<close>

fun runDeferred :: "Response list \<Rightarrow> 'w state \<Rightarrow> 'w state" where
  "runDeferred [] st = st"
| "runDeferred (res # deferred) st = runDeferred deferred (closeResponse res st)"

definition exec :: "'w collaborators \<Rightarrow> string \<Rightarrow> Request \<Rightarrow> 'w state \<Rightarrow> (error + Response) \<times> 'w state" where
  "exec env method req st =
     (let (r, w) = execRequest env method req (world st)
      in (r, (emit (ExecRequest method req) st)\<lparr>world := w\<rparr>))"

definition newBody :: "'w collaborators \<Rightarrow> 'w state \<Rightarrow> string \<times> 'w state" where
  "newBody env st = (let (body, w) = randString env (world st) in (body, st\<lparr>world := w\<rparr>))"

definition StatusOK :: int where
  "StatusOK = 200"

definition putObjectMessage :: "'w collaborators \<Rightarrow> int \<Rightarrow> string" where
  "putObjectMessage env curTest =
     ''['' @ fmt02d curTest @ ''/'' @ Itoa (globalTotalNumTest env) @ ''] PutObject:''"

subsection \<open>mainPutObjectPrepared\<close>

text \<open>
  The result is the panic or the returned boolean, with the state the call leaves.
  \<^verbatim>\<open>s3verifyBuckets[0]\<close> on an empty slice is the index-out-of-range panic.
\<close>

definition mainPutObjectPrepared ::
  "'w collaborators \<Rightarrow> int \<Rightarrow> 'w state \<Rightarrow> (panic + bool) \<times> 'w state" where
  "mainPutObjectPrepared env curTest st =
     (let message = putObjectMessage env curTest
      in case s3verifyBuckets st of
           [] \<Rightarrow> (Inl IndexOutOfRange, st)
         | bucket # _ \<Rightarrow>
             (let st = scanBar message st;
                  (body, st) = newBody env st;
                  object = \<lparr>Key = ''s3verify/made/put/object'', Body = body\<rparr>;
                  st = scanBar message st
              in case newPutObjectReq env (Name bucket) (Key object) (Body object) of
                   Inl err \<Rightarrow> (Inr False, printMessage message (Some err) st)
                 | Inr req \<Rightarrow>
                     (let st = scanBar message st
                      in case exec env ''PUT'' req st of
                           (Inl err, st) \<Rightarrow> (Inr False, printMessage message (Some err) st)
                         | (Inr res, st) \<Rightarrow>
                             (let st = scanBar message st
                              in case putObjectVerify env res StatusOK of
                                   (Inl p, res) \<Rightarrow> (Inl p, runDeferred [res] st)
                                 | (Inr (Some err), res) \<Rightarrow>
                                     (Inr False, runDeferred [res] (printMessage message (Some err) st))
                                 | (Inr None, res) \<Rightarrow>
                                     (let st = st\<lparr>s3verifyObjects := s3verifyObjects st @ [object]\<rparr>;
                                          st = scanBar message st;
                                          st = printMessage message None st
                                      in (Inr True, runDeferred [res] st))))))"

subsection \<open>mainPutObjectUnPrepared\<close>

text \<open>
  One pass through the body of the loop, for the counter \<open>i\<close>. \<open>Inr True\<close> is the end
  of the body (the loop goes on), \<open>Inr False\<close> is \<^verbatim>\<open>return false\<close>. The responses
  deferred so far are part of what the loop carries.
\<close>

definition putObjectIteration ::
  "'w collaborators \<Rightarrow> BucketInfo \<Rightarrow> string \<Rightarrow> nat \<Rightarrow> 'w state \<times> Response list
     \<Rightarrow> (panic + bool) \<times> 'w state \<times> Response list" where
  "putObjectIteration env bucket message i = (\<lambda>(st, deferred).
     (let st = scanBar message st;
          object = \<lparr>Key = [], Body = []\<rparr>;
          object = object\<lparr>Key := ''s3verify/put/object/'' @ Itoa (int i)\<rparr>;
          (body, st) = newBody env st;
          object = object\<lparr>Body := body\<rparr>
      in case newPutObjectReq env (Name bucket) (Key object) (Body object) of
           Inl err \<Rightarrow> (Inr False, printMessage message (Some err) st, deferred)
         | Inr req \<Rightarrow>
             (case exec env ''PUT'' req st of
                (Inl err, st) \<Rightarrow> (Inr False, printMessage message (Some err) st, deferred)
              | (Inr res, st) \<Rightarrow>
                  (case putObjectVerify env res StatusOK of
                     (Inl p, res) \<Rightarrow> (Inl p, st, res # deferred)
                   | (Inr (Some err), res) \<Rightarrow>
                       (Inr False, printMessage message (Some err) st, res # deferred)
                   | (Inr None, res) \<Rightarrow>
                       (let st = st\<lparr>s3verifyObjects := s3verifyObjects st @ [object]\<rparr>;
                            st = scanBar message st
                        in (Inr True, st, res # deferred))))))"

text \<open>\<^verbatim>\<open>for i := 0; i < 101; i++\<close>, from the counter \<open>i\<close> on.\<close>

function putObjectLoop ::
  "'w collaborators \<Rightarrow> BucketInfo \<Rightarrow> string \<Rightarrow> nat \<Rightarrow> 'w state \<times> Response list
     \<Rightarrow> (panic + bool) \<times> 'w state \<times> Response list" where
  "putObjectLoop env bucket message i c =
     (if i < 101
      then (case putObjectIteration env bucket message i c of
              (Inr True, c') \<Rightarrow> putObjectLoop env bucket message (i + 1) c'
            | (r, c') \<Rightarrow> (r, c'))
      else (Inr True, c))"
  by pat_completeness auto
termination
  by (relation "measure (\<lambda>(env, bucket, message, i, c). 101 - i)") auto

declare putObjectLoop.simps [simp del]

definition mainPutObjectUnPrepared ::
  "'w collaborators \<Rightarrow> int \<Rightarrow> 'w state \<Rightarrow> (panic + bool) \<times> 'w state" where
  "mainPutObjectUnPrepared env curTest st =
     (let message = putObjectMessage env curTest
      in case s3verifyBuckets st of
           [] \<Rightarrow> (Inl IndexOutOfRange, st)
         | bucket # _ \<Rightarrow>
             (let st = scanBar message st
              in case putObjectLoop env bucket message 0 (st, []) of
                   (Inr True, st, deferred) \<Rightarrow>
                     (let st = scanBar message st;
                          st = printMessage message None st
                      in (Inr True, runDeferred deferred st))
                 | (r, st, deferred) \<Rightarrow> (r, runDeferred deferred st)))"

section \<open>Vocabulary of the properties\<close>

text \<open>The requests handed to the transport, in order, and where each one goes.\<close>

fun requests :: "event list \<Rightarrow> (string \<times> Request) list" where
  "requests [] = []"
| "requests (ExecRequest method req # es) = (method, req) # requests es"
| "requests (e # es) = requests es"

definition targets :: "event list \<Rightarrow> (string \<times> string \<times> string) list" where
  "targets es = map (\<lambda>(method, req). (method, bucketName req, objectName req)) (requests es)"

text \<open>The reports of failure among the events: the calls of \<^verbatim>\<open>printMessage\<close> with an error.\<close>

fun failureReports :: "event list \<Rightarrow> error list" where
  "failureReports [] = []"
| "failureReports (PrintMessage message (Some err) # es) = err # failureReports es"
| "failureReports (e # es) = failureReports es"

text \<open>The key of the object that the loop uploads at the counter \<open>i\<close>.\<close>

definition loopKey :: "nat \<Rightarrow> string" where
  "loopKey i = ''s3verify/put/object/'' @ Itoa (int i)"

text \<open>
  Build, transport execution and response verification all succeed for \<open>object\<close> in
  \<open>bucket\<close>, when the transport is called in the world \<open>w\<close>.
\<close>

definition stepSucceeds :: "'w collaborators \<Rightarrow> BucketInfo \<Rightarrow> ObjectInfo \<Rightarrow> 'w \<Rightarrow> bool" where
  "stepSucceeds env bucket object w =
     (case newPutObjectReq env (Name bucket) (Key object) (Body object) of
        Inl err \<Rightarrow> False
      | Inr req \<Rightarrow>
          (case execRequest env ''PUT'' req w of
             (Inl err, w') \<Rightarrow> False
           | (Inr res, w') \<Rightarrow> fst (putObjectVerify env res StatusOK) = Inr None))"

text \<open>What the loop carries after its first \<open>k\<close> iterations, run one after the other.\<close>

primrec afterIterations ::
  "'w collaborators \<Rightarrow> BucketInfo \<Rightarrow> string \<Rightarrow> nat \<Rightarrow> 'w state \<times> Response list
     \<Rightarrow> 'w state \<times> Response list" where
  "afterIterations env bucket message 0 c = c"
| "afterIterations env bucket message (Suc k) c =
     snd (putObjectIteration env bucket message k (afterIterations env bucket message k c))"

text \<open>
  Iteration \<open>k\<close>, counted from 1, is the first that does not reach the end of the loop's
  body: the counters \<open>0, \<dots>, k - 2\<close> pass and the counter \<open>k - 1\<close> does not.
\<close>

definition firstFailure ::
  "'w collaborators \<Rightarrow> BucketInfo \<Rightarrow> string \<Rightarrow> nat \<Rightarrow> 'w state \<times> Response list \<Rightarrow> bool" where
  "firstFailure env bucket message k c =
     (0 < k \<and> k \<le> 101 \<and>
      list_all (\<lambda>j. fst (putObjectIteration env bucket message j
                          (afterIterations env bucket message j c)) = Inr True) [0..<k - 1] \<and>
      fst (putObjectIteration env bucket message (k - 1)
             (afterIterations env bucket message (k - 1) c)) \<noteq> Inr True)"

section \<open>A stub transport\<close>

text \<open>
  Collaborators for concrete runs. The world is the list of answers the transport still
  has to give; once the list is used up it fails. A response has valid standard headers
  when it carries a request id; the digests are stand-ins that keep a prefix of the
  payload; every object body is the same 60 bytes.
\<close>

definition stubHeader :: Header where
  "stubHeader = [''X-Amz-Request-Id'' \<mapsto> [''1'']]"

definition stubResponse :: "int \<Rightarrow> string \<Rightarrow> Response" where
  "stubResponse code content =
     \<lparr>StatusCode = code, Header = stubHeader,
      ResBody = Some \<lparr>pending = content, failure = None, fullReads = 0\<rparr>\<rparr>"

definition stub :: "(error + Response) list collaborators" where
  "stub =
     \<lparr>md5Sum = take 16, sha256Sum = take 32, appUserAgent = ''s3verify'',
      globalTotalNumTest = 20,
      verifyStandardHeaders = (\<lambda>header.
         case header ''X-Amz-Request-Id'' of
           None \<Rightarrow> Some (Error ''missing X-Amz-Request-Id'')
         | Some v \<Rightarrow> None),
      randString = (\<lambda>w. (replicate 60 CHR ''x'', w)),
      execRequest = (\<lambda>method req w.
         case w of
           [] \<Rightarrow> (Inl (Error ''connection refused''), [])
         | answer # answers \<Rightarrow> (answer, answers))\<rparr>"

definition stubState :: "BucketInfo list \<Rightarrow> (error + Response) list \<Rightarrow> (error + Response) list state" where
  "stubState buckets answers =
     \<lparr>s3verifyBuckets = buckets, s3verifyObjects = [], preparedObjects = [], copyObjects = [],
      trace = [], world = answers\<rparr>"

text \<open>
  Two runs of the stub, both with the buckets \<^verbatim>\<open>b1\<close> and \<^verbatim>\<open>b2\<close>: one where the
  transport answers 200, 200 and then 403, and one where its only answer is 403.
\<close>

definition twoBuckets :: "BucketInfo list" where
  "twoBuckets = [\<lparr>Name = ''b1''\<rparr>, \<lparr>Name = ''b2''\<rparr>]"

definition thirdFails :: "(error + Response) list state" where
  "thirdFails = stubState twoBuckets
     [Inr (stubResponse 200 []), Inr (stubResponse 200 []), Inr (stubResponse 403 [])]"

definition forbidden :: "(error + Response) list state" where
  "forbidden = stubState twoBuckets [Inr (stubResponse 403 [])]"

section \<open>The request builder\<close>

lemma canonical_Content_MD5: "CanonicalMIMEHeaderKey ''Content-MD5'' = ''Content-Md5''"
  by code_simp

lemma canonical_Content_Sha256:
  "CanonicalMIMEHeaderKey ''X-Amz-Content-Sha256'' = ''X-Amz-Content-Sha256''"
  by code_simp

lemma canonical_User_Agent: "CanonicalMIMEHeaderKey ''User-Agent'' = ''User-Agent''"
  by code_simp

lemma computeHash_NewReader:
  "computeHash md5 sha256 (bytes_NewReader P) =
     (Inr (md5 P, sha256 P, int (length P)), bytes_NewReader P)"
  by (simp add: computeHash_def readToEnd_def unread_def bytes_NewReader_def)

text \<open>
  The request that \<^verbatim>\<open>newPutObjectReq\<close> builds, field by field. The three header keys
  are distinct after canonicalisation, so no \<^verbatim>\<open>Set\<close> overwrites another.
\<close>

lemma newPutObjectReq_eq:
  "newPutObjectReq env b k P =
     Inr \<lparr>bucketName = b, objectName = k,
          customHeader = [''Content-Md5'' \<mapsto> [base64_EncodeToString (md5Sum env P)],
                          ''X-Amz-Content-Sha256'' \<mapsto> [hex_EncodeToString (sha256Sum env P)],
                          ''User-Agent'' \<mapsto> [appUserAgent env]],
          contentLength = int (length P),
          contentBody = Some (bytes_NewReader P)\<rparr>"
  by (simp add: newPutObjectReq_def computeHash_NewReader Header_Set_def canonical_Content_MD5
      canonical_Content_Sha256 canonical_User_Agent Request_zero_def)

text \<open>
  C1: whenever \<^verbatim>\<open>newPutObjectReq(b, k, P)\<close> returns a request, its \<^verbatim>\<open>Content-MD5\<close>
  header is the base64 encoding of the checksum digest of \<open>P\<close>, its
  \<^verbatim>\<open>X-Amz-Content-Sha256\<close> header is the hex encoding of the content digest of \<open>P\<close>, the
  body reader read from where it stands yields exactly \<open>P\<close>, and hashing that body again
  gives the digests of \<open>P\<close> and the declared content length.
\<close>

theorem newPutObjectReq_digests_roundtrip:
  "newPutObjectReq env b k P = Inr req \<Longrightarrow>
     Header_Get (customHeader req) ''Content-MD5'' = base64_EncodeToString (md5Sum env P) \<and>
     Header_Get (customHeader req) ''X-Amz-Content-Sha256'' = hex_EncodeToString (sha256Sum env P) \<and>
     (\<exists>reader. contentBody req = Some reader \<and> fst (readToEnd reader) = P \<and>
        fst (computeHash (md5Sum env) (sha256Sum env) reader) =
          Inr (md5Sum env P, sha256Sum env P, contentLength req))"
  by (auto simp: newPutObjectReq_eq Header_Get_def canonical_Content_MD5 canonical_Content_Sha256
        computeHash_NewReader)
     (simp add: bytes_NewReader_def unread_def readToEnd_def)

theorem newPutObjectReq_digests_roundtrip_witness:
  "newPutObjectReq stub ''b1'' ''k1'' ''Man'' = Inr (projr (newPutObjectReq stub ''b1'' ''k1'' ''Man'')) \<and>
   Header_Get (customHeader (projr (newPutObjectReq stub ''b1'' ''k1'' ''Man''))) ''Content-MD5'' = ''TWFu'' \<and>
   Header_Get (customHeader (projr (newPutObjectReq stub ''b1'' ''k1'' ''Man'')))
     ''X-Amz-Content-Sha256'' = ''4d616e'' \<and>
   map_option (\<lambda>reader. fst (readToEnd reader))
     (contentBody (projr (newPutObjectReq stub ''b1'' ''k1'' ''Man''))) = Some ''Man''"
proof -
  have built: "newPutObjectReq stub ''b1'' ''k1'' ''Man'' =
      Inr (projr (newPutObjectReq stub ''b1'' ''k1'' ''Man''))"
    by (simp add: newPutObjectReq_eq)
  have checksum: "base64_EncodeToString (md5Sum stub ''Man'') = ''TWFu''"
    by (simp add: stub_def encodeStd_def)
  have digest: "hex_EncodeToString (sha256Sum stub ''Man'') = ''4d616e''"
    by (simp add: stub_def hextable_def)
  from newPutObjectReq_digests_roundtrip [OF built] built checksum digest show ?thesis
    by auto
qed

text \<open>
  C2: whenever \<^verbatim>\<open>newPutObjectReq(b, k, P)\<close> returns a request, for any payload \<open>P\<close>, the
  empty one included, its \<^verbatim>\<open>contentLength\<close> is the exact number of bytes of \<open>P\<close>.
\<close>

theorem newPutObjectReq_contentLength:
  "newPutObjectReq env b k P = Inr req \<Longrightarrow> contentLength req = int (length P)"
  by (auto simp: newPutObjectReq_eq)

theorem newPutObjectReq_contentLength_witness:
  "\<not> isl (newPutObjectReq stub ''b1'' ''k1'' []) \<and>
   contentLength (projr (newPutObjectReq stub ''b1'' ''k1'' [])) = 0 \<and>
   contentLength (projr (newPutObjectReq stub ''b1'' ''k1'' ''hello'')) = 5"
proof -
  have empty: "newPutObjectReq stub ''b1'' ''k1'' [] =
      Inr (projr (newPutObjectReq stub ''b1'' ''k1'' []))"
    by (simp add: newPutObjectReq_eq)
  have hello: "newPutObjectReq stub ''b1'' ''k1'' ''hello'' =
      Inr (projr (newPutObjectReq stub ''b1'' ''k1'' ''hello''))"
    by (simp add: newPutObjectReq_eq)
  show ?thesis
    using newPutObjectReq_contentLength [OF empty] newPutObjectReq_contentLength [OF hello]
    by (simp add: newPutObjectReq_eq)
qed

text \<open>
  C8, as the code has it: \<^verbatim>\<open>newPutObjectReq\<close> checks neither name. For every bucket
  name, object name and payload, empty ones included, it returns a request that carries
  the two names as given, and no error.
\<close>

theorem newPutObjectReq_accepts_any_names:
  "\<exists>req. newPutObjectReq env b k P = Inr req \<and> bucketName req = b \<and> objectName req = k"
  by (simp add: newPutObjectReq_eq)

text \<open>With an empty bucket name, an empty object name, or both, a request comes back.\<close>

theorem newPutObjectReq_empty_names_counterexample:
  "\<not> isl (newPutObjectReq stub [] ''k1'' ''abc'') \<and>
   \<not> isl (newPutObjectReq stub ''b1'' [] ''abc'') \<and>
   \<not> isl (newPutObjectReq stub [] [] ''abc'') \<and>
   bucketName (projr (newPutObjectReq stub [] [] ''abc'')) = [] \<and>
   objectName (projr (newPutObjectReq stub [] [] ''abc'')) = []"
  by (simp add: newPutObjectReq_eq)

section \<open>The response verifier\<close>

text \<open>
  C5: the status sub-check returns nil when the two codes are equal; when they differ it
  returns the error \<^verbatim>\<open>Unexpected Response Status Code: wanted E, got R\<close>, whose message
  contains the decimal forms of both the expected and the actual code.
\<close>

theorem verifyStatusPutObject_reports_both:
  "(r = e \<longrightarrow> verifyStatusPutObject r e = None) \<and>
   (r \<noteq> e \<longrightarrow>
      verifyStatusPutObject r e =
        Some (Error (''Unexpected Response Status Code: wanted '' @ Itoa e @ '', got '' @ Itoa r)) \<and>
      (\<exists>err. verifyStatusPutObject r e = Some err \<and> sublist (Itoa e) (errorMessage err) \<and>
         sublist (Itoa r) (errorMessage err)))"
proof -
  let ?m = "''Unexpected Response Status Code: wanted '' @ Itoa e @ '', got '' @ Itoa r"
  have expected: "sublist (Itoa e) ?m"
    unfolding sublist_def by blast
  have "?m = (''Unexpected Response Status Code: wanted '' @ Itoa e @ '', got '') @ Itoa r @ []"
    by simp
  then have actual: "sublist (Itoa r) ?m"
    unfolding sublist_def by blast
  show ?thesis
    using expected actual by (simp add: verifyStatusPutObject_def)
qed

theorem verifyStatusPutObject_reports_both_witness:
  "(403::int) \<noteq> 200 \<and>
   verifyStatusPutObject 403 200 =
     Some (Error ''Unexpected Response Status Code: wanted 200, got 403'') \<and>
   verifyStatusPutObject 200 200 = None"
  using verifyStatusPutObject_reports_both [of 403 200]
    verifyStatusPutObject_reports_both [of 200 200]
  by (simp add: Itoa_def digit_def natDigits.simps)

lemma verifyHeaderPutObject_eq: "verifyHeaderPutObject env h = verifyStandardHeaders env h"
  by (simp add: verifyHeaderPutObject_def split: option.splits)

lemma putObjectVerify_nil_iff:
  "fst (putObjectVerify env res expected) = Inr None \<longleftrightarrow>
     verifyHeaderPutObject env (Header res) = None \<and>
     verifyStatusPutObject (StatusCode res) expected = None \<and>
     fst (verifyBodyPutObject (ResBody res)) = Inr None"
  by (simp add: putObjectVerify_def split: prod.splits sum.splits option.splits)

text \<open>
  C4: \<^verbatim>\<open>putObjectVerify\<close> runs the header check, then the status check, then the body
  check. The header check is the verdict of \<^verbatim>\<open>verifyStandardHeaders\<close>, unchanged. An
  error of the header check is returned whatever the status and the body are, and the
  response is left as it was (the body is not read). When the header check passes, an
  error of the status check is returned and the response is left as it was. When both
  pass, the result is that of the body check. The result is nil exactly when all three
  sub-checks return nil.
\<close>

theorem putObjectVerify_order:
  "verifyHeaderPutObject env header = verifyStandardHeaders env header \<and>
   (\<forall>err. verifyHeaderPutObject env (Header res) = Some err \<longrightarrow>
      putObjectVerify env res expected = (Inr (Some err), res)) \<and>
   (verifyHeaderPutObject env (Header res) = None \<longrightarrow>
      (\<forall>err. verifyStatusPutObject (StatusCode res) expected = Some err \<longrightarrow>
         putObjectVerify env res expected = (Inr (Some err), res)) \<and>
      (verifyStatusPutObject (StatusCode res) expected = None \<longrightarrow>
         putObjectVerify env res expected =
           (fst (verifyBodyPutObject (ResBody res)),
            res\<lparr>ResBody := snd (verifyBodyPutObject (ResBody res))\<rparr>))) \<and>
   (fst (putObjectVerify env res expected) = Inr None \<longleftrightarrow>
      verifyHeaderPutObject env (Header res) = None \<and>
      verifyStatusPutObject (StatusCode res) expected = None \<and>
      fst (verifyBodyPutObject (ResBody res)) = Inr None)"
  apply (intro conjI allI impI)
      apply (rule verifyHeaderPutObject_eq)
     apply (simp add: putObjectVerify_def)
    apply (simp add: putObjectVerify_def)
   apply (simp add: putObjectVerify_def split: prod.splits sum.splits option.splits)
  apply (rule putObjectVerify_nil_iff)
  done

text \<open>
  Four responses: one that fails all three sub-checks gives the header error and keeps
  its body; with valid headers, 403 gives the status error; with valid headers and 200, a
  body gives the body error; an empty body gives nil.
\<close>

theorem putObjectVerify_order_witness:
  "putObjectVerify stub
     \<lparr>StatusCode = 403, Header = Map.empty,
      ResBody = Some \<lparr>pending = ''<Error/>'', failure = None, fullReads = 0\<rparr>\<rparr> 200 =
     (Inr (Some (Error ''missing X-Amz-Request-Id'')),
      \<lparr>StatusCode = 403, Header = Map.empty,
       ResBody = Some \<lparr>pending = ''<Error/>'', failure = None, fullReads = 0\<rparr>\<rparr>) \<and>
   putObjectVerify stub (stubResponse 403 ''<Error/>'') 200 =
     (Inr (Some (Error ''Unexpected Response Status Code: wanted 200, got 403'')),
      stubResponse 403 ''<Error/>'') \<and>
   fst (putObjectVerify stub (stubResponse 200 ''<Error/>'') 200) =
     Inr (Some (Error ''Unexpected Body Recieved: expected empty body but recieved: <Error/>'')) \<and>
   fst (putObjectVerify stub (stubResponse 200 []) 200) = Inr None"
proof -
  let ?r = "\<lparr>StatusCode = 403, Header = Map.empty,
     ResBody = Some \<lparr>pending = ''<Error/>'', failure = None, fullReads = 0\<rparr>\<rparr>"
  have bad_header: "verifyHeaderPutObject stub (Header ?r) = Some (Error ''missing X-Amz-Request-Id'')"
    by (simp add: verifyHeaderPutObject_def stub_def)
  have good_header: "verifyHeaderPutObject stub (Header (stubResponse c x)) = None" for c x
    by (simp add: verifyHeaderPutObject_def stub_def stubResponse_def stubHeader_def)
  have bad_status: "verifyStatusPutObject (StatusCode (stubResponse 403 x)) 200 =
      Some (Error ''Unexpected Response Status Code: wanted 200, got 403'')" for x
    by (simp add: verifyStatusPutObject_def stubResponse_def Itoa_def digit_def natDigits.simps)
  have good_status: "verifyStatusPutObject (StatusCode (stubResponse 200 x)) 200 = None" for x
    by (simp add: verifyStatusPutObject_def stubResponse_def)
  have bad_body: "fst (verifyBodyPutObject (ResBody (stubResponse 200 ''<Error/>''))) =
      Inr (Some (Error ''Unexpected Body Recieved: expected empty body but recieved: <Error/>''))"
    by (simp add: verifyBodyPutObject_def ioutil_ReadAll_def stubResponse_def)
  have good_body: "fst (verifyBodyPutObject (ResBody (stubResponse 200 []))) = Inr None"
    by (simp add: verifyBodyPutObject_def ioutil_ReadAll_def stubResponse_def)
  show ?thesis
    using putObjectVerify_order [of stub "Map.empty" ?r 200]
      putObjectVerify_order [of stub "Map.empty" "stubResponse 403 ''<Error/>''" 200]
      putObjectVerify_order [of stub "Map.empty" "stubResponse 200 ''<Error/>''" 200]
      putObjectVerify_order [of stub "Map.empty" "stubResponse 200 []" 200]
      bad_header good_header bad_status good_status bad_body good_body
    by simp
qed

lemma verifyBodyPutObject_readable:
  "failure b = None \<Longrightarrow>
     verifyBodyPutObject (Some b) =
       (Inr (if pending b = [] then None
             else Some (Error (''Unexpected Body Recieved: expected empty body but recieved: '' @
                   pending b))),
        Some (b\<lparr>pending := [], fullReads := fullReads b + 1\<rparr>))"
  by (simp add: verifyBodyPutObject_def ioutil_ReadAll_def)

text \<open>
  C6: for a body stream that reads to its end without error, the body sub-check reads
  all of it (nothing is left pending), returns nil exactly when the body has length 0,
  and for a non-empty body returns the error
  \<^verbatim>\<open>Unexpected Body Recieved: expected empty body but recieved: CONTENT\<close>, whose message
  contains the content. So a response with valid standard headers, the expected status
  code and an empty body makes \<^verbatim>\<open>putObjectVerify\<close> return nil.
\<close>

theorem verifyBodyPutObject_empty_iff:
  "failure b = None \<Longrightarrow>
     snd (verifyBodyPutObject (Some b)) = Some (b\<lparr>pending := [], fullReads := fullReads b + 1\<rparr>) \<and>
     (fst (verifyBodyPutObject (Some b)) = Inr None \<longleftrightarrow> length (pending b) = 0) \<and>
     (pending b \<noteq> [] \<longrightarrow>
        fst (verifyBodyPutObject (Some b)) =
          Inr (Some (Error (''Unexpected Body Recieved: expected empty body but recieved: '' @
                pending b))) \<and>
        (\<exists>err. fst (verifyBodyPutObject (Some b)) = Inr (Some err) \<and>
           sublist (pending b) (errorMessage err))) \<and>
     (verifyStandardHeaders env (Header res) = None \<and> StatusCode res = expected \<and>
      ResBody res = Some b \<and> pending b = [] \<longrightarrow>
        fst (putObjectVerify env res expected) = Inr None)"
proof -
  assume readable: "failure b = None"
  have "sublist (pending b)
      (''Unexpected Body Recieved: expected empty body but recieved: '' @ pending b @ [])"
    unfolding sublist_def by blast
  then have content: "sublist (pending b)
      (''Unexpected Body Recieved: expected empty body but recieved: '' @ pending b)"
    by simp
  show ?thesis
    using content
    by (simp add: verifyBodyPutObject_readable [OF readable] putObjectVerify_nil_iff
        verifyHeaderPutObject_eq verifyStatusPutObject_def)
qed

theorem verifyBodyPutObject_empty_iff_witness:
  "failure \<lparr>pending = ''<Error/>'', failure = None, fullReads = 0\<rparr> = None \<and>
   verifyBodyPutObject (Some \<lparr>pending = ''<Error/>'', failure = None, fullReads = 0\<rparr>) =
     (Inr (Some (Error ''Unexpected Body Recieved: expected empty body but recieved: <Error/>'')),
      Some \<lparr>pending = [], failure = None, fullReads = 1\<rparr>) \<and>
   verifyBodyPutObject (Some \<lparr>pending = [], failure = None, fullReads = 0\<rparr>) =
     (Inr None, Some \<lparr>pending = [], failure = None, fullReads = 1\<rparr>) \<and>
   fst (putObjectVerify stub (stubResponse 200 []) 200) = Inr None"
proof -
  let ?b = "\<lparr>pending = ''<Error/>'', failure = None, fullReads = 0\<rparr>"
  let ?e = "\<lparr>pending = [], failure = None, fullReads = 0\<rparr>"
  have full: "failure ?b = None" by simp
  have empty: "failure ?e = None" by simp
  have passing: "verifyStandardHeaders stub (Header (stubResponse 200 [])) = None \<and>
      StatusCode (stubResponse 200 []) = 200 \<and>
      ResBody (stubResponse 200 []) = Some ?e \<and> pending ?e = []"
    by (simp add: stub_def stubResponse_def stubHeader_def)
  from verifyBodyPutObject_empty_iff [OF full, of stub "stubResponse 200 []" 200]
    verifyBodyPutObject_empty_iff [OF empty, of stub "stubResponse 200 []" 200] passing
  show ?thesis
    by (auto simp: prod_eq_iff)
qed

text \<open>
  C7, as the code has it: on a response whose body is not nil, \<^verbatim>\<open>putObjectVerify\<close>
  does not panic and reads the body to its end at most once: once when the header and
  status checks pass, not at all otherwise. A nil body is not taken as a body of length
  zero: when the header and status checks pass, reading it panics with a nil
  dereference; when one of them fails, the body is not touched and there is no panic.
\<close>

theorem putObjectVerify_reads_once:
  "(ResBody res = Some b \<longrightarrow>
      (\<exists>verdict. fst (putObjectVerify env res expected) = Inr verdict) \<and>
      (\<exists>b'. ResBody (snd (putObjectVerify env res expected)) = Some b' \<and>
         fullReads b' \<le> fullReads b + 1 \<and>
         (fullReads b' = fullReads b + 1 \<longleftrightarrow>
            verifyStandardHeaders env (Header res) = None \<and> StatusCode res = expected))) \<and>
   (ResBody res = None \<longrightarrow>
      (fst (putObjectVerify env res expected) = Inl NilPointerDereference \<longleftrightarrow>
         verifyStandardHeaders env (Header res) = None \<and> StatusCode res = expected))"
  by (auto simp: putObjectVerify_def verifyHeaderPutObject_eq verifyStatusPutObject_def
      verifyBodyPutObject_def ioutil_ReadAll_def split: option.splits)

theorem putObjectVerify_reads_once_witness:
  "ResBody (stubResponse 200 ''<Error/>'') =
     Some \<lparr>pending = ''<Error/>'', failure = None, fullReads = 0\<rparr> \<and>
   map_option fullReads
     (ResBody (snd (putObjectVerify stub (stubResponse 200 ''<Error/>'') 200))) = Some 1 \<and>
   map_option fullReads
     (ResBody (snd (putObjectVerify stub (stubResponse 403 ''<Error/>'') 200))) = Some 0"
proof -
  let ?b = "\<lparr>pending = ''<Error/>'', failure = None, fullReads = 0\<rparr>"
  have body: "ResBody (stubResponse c ''<Error/>'') = Some ?b" for c
    by (simp add: stubResponse_def)
  have checks: "verifyStandardHeaders stub (Header (stubResponse c ''<Error/>'')) = None \<and>
      StatusCode (stubResponse c ''<Error/>'') = c" for c
    by (simp add: stubResponse_def stub_def stubHeader_def)
  obtain b1 where b1:
    "ResBody (snd (putObjectVerify stub (stubResponse 200 ''<Error/>'') 200)) = Some b1"
    "fullReads b1 = fullReads ?b + 1"
    using putObjectVerify_reads_once [of "stubResponse 200 ''<Error/>''" ?b stub 200] body checks
    by auto
  obtain b2 where b2:
    "ResBody (snd (putObjectVerify stub (stubResponse 403 ''<Error/>'') 200)) = Some b2"
    "fullReads b2 \<le> fullReads ?b + 1" "fullReads b2 \<noteq> fullReads ?b + 1"
    using putObjectVerify_reads_once [of "stubResponse 403 ''<Error/>''" ?b stub 200] body checks
    by auto
  show ?thesis
    using body b1 b2 by simp
qed

text \<open>A response with valid headers, the expected status and a nil body: a panic.\<close>

theorem putObjectVerify_nil_body_counterexample:
  "fst (putObjectVerify stub \<lparr>StatusCode = 200, Header = stubHeader, ResBody = None\<rparr> 200) =
     Inl NilPointerDereference"
  by (simp add: putObjectVerify_def verifyHeaderPutObject_def verifyStatusPutObject_def
      verifyBodyPutObject_def ioutil_ReadAll_def stub_def stubHeader_def)

section \<open>The test steps\<close>

text \<open>
  C9, as the code has it: with no bucket in \<^verbatim>\<open>s3verifyBuckets\<close>, both modes panic on
  \<^verbatim>\<open>s3verifyBuckets[0]\<close> with an index out of range, before any other call: nothing is
  reported, no boolean is returned, and the state is as it was.
\<close>

theorem mainPutObject_no_bucket_panics:
  "s3verifyBuckets st = [] \<Longrightarrow>
     mainPutObjectPrepared env curTest st = (Inl IndexOutOfRange, st) \<and>
     mainPutObjectUnPrepared env curTest st = (Inl IndexOutOfRange, st)"
  by (simp add: mainPutObjectPrepared_def mainPutObjectUnPrepared_def)

theorem mainPutObject_no_bucket_panics_witness:
  "s3verifyBuckets (stubState [] [Inr (stubResponse 200 [])]) = [] \<and>
   mainPutObjectPrepared stub 1 (stubState [] [Inr (stubResponse 200 [])]) =
     (Inl IndexOutOfRange, stubState [] [Inr (stubResponse 200 [])]) \<and>
   mainPutObjectUnPrepared stub 1 (stubState [] [Inr (stubResponse 200 [])]) =
     (Inl IndexOutOfRange, stubState [] [Inr (stubResponse 200 [])])"
proof -
  have empty: "s3verifyBuckets (stubState [] [Inr (stubResponse 200 [])]) = []"
    by (simp add: stubState_def)
  from mainPutObject_no_bucket_panics [OF empty] empty show ?thesis
    by simp
qed

text \<open>
  With an empty bucket registry neither mode returns false and neither reports an error:
  both end in the panic.
\<close>

theorem mainPutObject_no_bucket_counterexample:
  "fst (mainPutObjectPrepared stub 1 (stubState [] [])) = Inl IndexOutOfRange \<and>
   fst (mainPutObjectUnPrepared stub 1 (stubState [] [])) = Inl IndexOutOfRange \<and>
   failureReports (trace (snd (mainPutObjectPrepared stub 1 (stubState [] [])))) = [] \<and>
   failureReports (trace (snd (mainPutObjectUnPrepared stub 1 (stubState [] [])))) = []"
  by (simp add: mainPutObjectPrepared_def mainPutObjectUnPrepared_def stubState_def)

subsection \<open>What the calls leave behind\<close>

lemma requests_append: "requests (es @ fs) = requests es @ requests fs"
  by (induction es rule: requests.induct) simp_all

lemma targets_append: "targets (es @ fs) = targets es @ targets fs"
  by (simp add: targets_def requests_append)

lemma runDeferred_objects [simp]: "s3verifyObjects (runDeferred ds st) = s3verifyObjects st"
  by (induction ds arbitrary: st) (simp_all add: closeResponse_def emit_def)

lemma runDeferred_requests [simp]: "requests (trace (runDeferred ds st)) = requests (trace st)"
  by (induction ds arbitrary: st) (simp_all add: closeResponse_def emit_def requests_append)

lemma emit_observed [simp]:
  "s3verifyObjects (emit e st) = s3verifyObjects st"
  "s3verifyBuckets (emit e st) = s3verifyBuckets st"
  "world (emit e st) = world st"
  "trace (emit e st) = trace st @ [e]"
  by (simp_all add: emit_def)

lemma targets_Cons [simp]:
  "targets [] = []"
  "targets (ScanBar m # es) = targets es"
  "targets (PrintMessage m err # es) = targets es"
  "targets (CloseResponse res # es) = targets es"
  "targets (ExecRequest method req # es) = (method, bucketName req, objectName req) # targets es"
  by (simp_all add: targets_def)

lemma runDeferred_targets [simp]: "targets (trace (runDeferred ds st)) = targets (trace st)"
  by (simp add: targets_def)

subsection \<open>One iteration of the loop\<close>

lemma putObjectIteration_verdict:
  "fst (putObjectIteration env bucket message i (st, deferred)) = Inr True \<longleftrightarrow>
     stepSucceeds env bucket
       \<lparr>Key = loopKey i, Body = fst (randString env (world st))\<rparr>
       (snd (randString env (world st)))"
  by (simp add: putObjectIteration_def stepSucceeds_def newBody_def exec_def scanBar_def
      printMessage_def emit_def Let_def split_def newPutObjectReq_eq loopKey_def
      split: sum.splits option.splits)

lemma putObjectIteration_objects:
  "s3verifyObjects (fst (snd (putObjectIteration env bucket message i (st, deferred)))) =
     (if fst (putObjectIteration env bucket message i (st, deferred)) = Inr True
      then s3verifyObjects st @
        [\<lparr>Key = loopKey i, Body = fst (randString env (world st))\<rparr>]
      else s3verifyObjects st)"
  by (simp add: putObjectIteration_def newBody_def exec_def scanBar_def
      printMessage_def emit_def Let_def split_def newPutObjectReq_eq loopKey_def
      split: sum.splits option.splits)

lemma putObjectIteration_targets:
  "targets (trace (fst (snd (putObjectIteration env bucket message i (st, deferred))))) =
     targets (trace st) @ [(''PUT'', Name bucket, loopKey i)]"
  by (simp add: putObjectIteration_def newBody_def exec_def scanBar_def
      printMessage_def emit_def Let_def split_def newPutObjectReq_eq loopKey_def targets_def requests_append
      split: sum.splits option.splits)


subsection \<open>The loop\<close>

lemma putObjectLoop_step:
  "i < 101 \<Longrightarrow>
     putObjectLoop env bucket message i c =
       (if fst (putObjectIteration env bucket message i c) = Inr True
        then putObjectLoop env bucket message (i + 1) (snd (putObjectIteration env bucket message i c))
        else putObjectIteration env bucket message i c)"
  by (cases "putObjectIteration env bucket message i c")
    (auto simp: putObjectLoop.simps [of env bucket message i c] split: sum.splits bool.splits)

lemma putObjectLoop_end:
  "\<not> i < 101 \<Longrightarrow> putObjectLoop env bucket message i c = (Inr True, c)"
  by (simp add: putObjectLoop.simps [of env bucket message i c])

lemma putObjectLoop_general:
  "i \<le> 101 \<Longrightarrow>
   \<exists>n. i + n \<le> 101 \<and>
     (\<exists>new. s3verifyObjects (fst (snd (putObjectLoop env bucket message i c))) =
          s3verifyObjects (fst c) @ new \<and>
        map Key new = map loopKey [i..<i + n]) \<and>
     targets (trace (fst (snd (putObjectLoop env bucket message i c)))) =
       targets (trace (fst c)) @
       map (\<lambda>j. (''PUT'', Name bucket, loopKey j))
         [i..<i + n + (if fst (putObjectLoop env bucket message i c) = Inr True then 0 else 1)] \<and>
     (fst (putObjectLoop env bucket message i c) = Inr True \<longleftrightarrow> i + n = 101)"
proof (induction env bucket message i c rule: putObjectLoop.induct)
  case (1 env bucket message i c)
  obtain st deferred where c: "c = (st, deferred)"
    by (cases c)
  let ?it = "putObjectIteration env bucket message i c"
  show ?case
  proof (cases "i < 101")
    case False
    then have "putObjectLoop env bucket message i c = (Inr True, c)"
      by (rule putObjectLoop_end)
    moreover from False "1.prems" have "i = 101"
      by simp
    ultimately show ?thesis
      by simp
  next
    case inside: True
    show ?thesis
    proof (cases "fst ?it = Inr True")
      case False
      then have loop: "putObjectLoop env bucket message i c = ?it"
        using inside by (simp add: putObjectLoop_step)
      have "s3verifyObjects (fst (snd ?it)) = s3verifyObjects (fst c)"
        using False by (simp add: c putObjectIteration_objects)
      moreover have "targets (trace (fst (snd ?it))) =
          targets (trace (fst c)) @ [(''PUT'', Name bucket, loopKey i)]"
        by (simp add: c putObjectIteration_targets)
      ultimately show ?thesis
        using False inside by (intro exI [of _ 0]) (simp add: loop)
    next
      case True
      then have it: "?it = (Inr True, snd ?it)"
        by (simp add: prod_eq_iff)
      have loop: "putObjectLoop env bucket message i c =
          putObjectLoop env bucket message (i + 1) (snd ?it)"
        using inside True by (simp add: putObjectLoop_step)
      have "i + 1 \<le> 101"
        using inside by simp
      from "1.IH" [OF inside it [symmetric] refl refl this]
      obtain n new where n: "Suc i + n \<le> 101"
        and new: "s3verifyObjects (fst (snd (putObjectLoop env bucket message (Suc i) (snd ?it)))) =
            s3verifyObjects (fst (snd ?it)) @ new"
          "map Key new = map loopKey [Suc i..<Suc i + n]"
        and tg: "targets (trace (fst (snd (putObjectLoop env bucket message (Suc i) (snd ?it))))) =
            targets (trace (fst (snd ?it))) @
            map (\<lambda>j. (''PUT'', Name bucket, loopKey j))
              [Suc i..<Suc i + n +
                (if fst (putObjectLoop env bucket message (Suc i) (snd ?it)) = Inr True then 0 else 1)]"
        and res: "fst (putObjectLoop env bucket message (Suc i) (snd ?it)) = Inr True \<longleftrightarrow> Suc i + n = 101"
        by auto
      let ?obj = "\<lparr>Key = loopKey i, Body = fst (randString env (world st))\<rparr>"
      have objs: "s3verifyObjects (fst (snd ?it)) = s3verifyObjects (fst c) @ [?obj]"
        using True by (simp add: c putObjectIteration_objects)
      have tgs: "targets (trace (fst (snd ?it))) =
          targets (trace (fst c)) @ [(''PUT'', Name bucket, loopKey i)]"
        by (simp add: c putObjectIteration_targets)
      have upt2: "[i..<i + (n + 1) + d] = i # [Suc i..<Suc i + n + d]" for d
        by (subst upt_rec) (simp del: upt_Suc)
      from upt2 [of 0] have upt1: "[i..<i + (n + 1)] = i # [Suc i..<Suc i + n]"
        by (simp del: upt_Suc)
      have loop': "putObjectLoop env bucket message i c =
          putObjectLoop env bucket message (Suc i) (snd ?it)"
        using loop by simp
      show ?thesis
      proof (intro exI [of _ "n + 1"] conjI)
        show "i + (n + 1) \<le> 101" using n by simp
        show "\<exists>new. s3verifyObjects (fst (snd (putObjectLoop env bucket message i c))) =
            s3verifyObjects (fst c) @ new \<and>
            map Key new = map loopKey [i..<i + (n + 1)]"
          unfolding loop' new objs upt1 by (intro exI [of _ "?obj # new"]) (simp add: new)
        show "targets (trace (fst (snd (putObjectLoop env bucket message i c)))) =
            targets (trace (fst c)) @
            map (\<lambda>j. (''PUT'', Name bucket, loopKey j))
              [i..<i + (n + 1) + (if fst (putObjectLoop env bucket message i c) = Inr True then 0 else 1)]"
          unfolding loop' tg tgs upt2 by simp
        show "fst (putObjectLoop env bucket message i c) = Inr True \<longleftrightarrow> i + (n + 1) = 101"
          using res by (simp add: loop')
      qed
    qed
  qed
qed


lemma putObjectLoop_prefix:
  "k \<le> 101 \<Longrightarrow>
   list_all (\<lambda>j. fst (putObjectIteration env bucket message j
                       (afterIterations env bucket message j c)) = Inr True) [0..<k] \<Longrightarrow>
   putObjectLoop env bucket message 0 c =
     putObjectLoop env bucket message k (afterIterations env bucket message k c)"
proof (induction k)
  case 0
  show ?case by simp
next
  case (Suc k)
  then have "putObjectLoop env bucket message 0 c =
      putObjectLoop env bucket message k (afterIterations env bucket message k c)"
    by simp
  also have "\<dots> = putObjectLoop env bucket message (Suc k) (afterIterations env bucket message (Suc k) c)"
  proof -
    from Suc.prems have "k < 101"
      and "fst (putObjectIteration env bucket message k (afterIterations env bucket message k c)) = Inr True"
      by simp_all
    then show ?thesis
      by (simp add: putObjectLoop_step [of k])
  qed
  finally show ?case .
qed


lemma putObjectLoop_firstFailure:
  assumes "firstFailure env bucket message k c"
  shows "putObjectLoop env bucket message 0 c =
     putObjectIteration env bucket message (k - 1) (afterIterations env bucket message (k - 1) c)"
proof -
  from assms have k: "0 < k" "k \<le> 101"
    and passed: "list_all (\<lambda>j. fst (putObjectIteration env bucket message j
                       (afterIterations env bucket message j c)) = Inr True) [0..<k - 1]"
    and failed: "fst (putObjectIteration env bucket message (k - 1)
             (afterIterations env bucket message (k - 1) c)) \<noteq> Inr True"
    by (simp_all add: firstFailure_def)
  from k have bound: "k - 1 \<le> 101" "k - 1 < 101"
    by simp_all
  have "putObjectLoop env bucket message 0 c =
      putObjectLoop env bucket message (k - 1) (afterIterations env bucket message (k - 1) c)"
    using bound(1) passed by (rule putObjectLoop_prefix)
  also have "\<dots> =
      putObjectIteration env bucket message (k - 1) (afterIterations env bucket message (k - 1) c)"
    using failed unfolding putObjectLoop_step [OF bound(2)] by simp
  finally show ?thesis .
qed

lemma afterIterations_objects:
  "list_all (\<lambda>j. fst (putObjectIteration env bucket message j
                       (afterIterations env bucket message j c)) = Inr True) [0..<k] \<Longrightarrow>
   \<exists>new. s3verifyObjects (fst (afterIterations env bucket message k c)) =
            s3verifyObjects (fst c) @ new \<and> map Key new = map loopKey [0..<k]"
proof (induction k)
  case 0
  show ?case by simp
next
  case (Suc k)
  then obtain new where new:
    "s3verifyObjects (fst (afterIterations env bucket message k c)) = s3verifyObjects (fst c) @ new"
    "map Key new = map loopKey [0..<k]"
    by auto
  obtain st deferred where c: "afterIterations env bucket message k c = (st, deferred)"
    by (cases "afterIterations env bucket message k c")
  from Suc.prems have "fst (putObjectIteration env bucket message k (st, deferred)) = Inr True"
    by (simp add: c)
  then have "s3verifyObjects (fst (afterIterations env bucket message (Suc k) c)) =
      s3verifyObjects (fst c) @ new @ [\<lparr>Key = loopKey k, Body = fst (randString env (world st))\<rparr>]"
    using new by (simp add: c putObjectIteration_objects)
  then show ?case
    using new by (intro exI [of _ "new @ [\<lparr>Key = loopKey k, Body = fst (randString env (world st))\<rparr>]"]) simp
qed

lemma afterIterations_targets:
  "targets (trace (fst (afterIterations env bucket message k c))) =
     targets (trace (fst c)) @ map (\<lambda>j. (''PUT'', Name bucket, loopKey j)) [0..<k]"
proof (induction k)
  case 0
  show ?case by simp
next
  case (Suc k)
  obtain st deferred where c: "afterIterations env bucket message k c = (st, deferred)"
    by (cases "afterIterations env bucket message k c")
  from Suc show ?case
    by (simp add: c putObjectIteration_targets)
qed


subsection \<open>The two steps as a whole\<close>

lemma mainPutObjectUnPrepared_eq:
  assumes "s3verifyBuckets st = bucket # rest"
  shows "mainPutObjectUnPrepared env curTest st =
     (let message = putObjectMessage env curTest;
          loop = putObjectLoop env bucket message 0 (scanBar message st, [])
      in (fst loop,
          runDeferred (snd (snd loop))
            (if fst loop = Inr True then printMessage message None (scanBar message (fst (snd loop)))
             else fst (snd loop))))"
proof -
  obtain r st' deferred where
    "putObjectLoop env bucket (putObjectMessage env curTest) 0
       (scanBar (putObjectMessage env curTest) st, []) = (r, st', deferred)"
    by (cases "putObjectLoop env bucket (putObjectMessage env curTest) 0
       (scanBar (putObjectMessage env curTest) st, [])") auto
  with assms show ?thesis
    by (simp add: mainPutObjectUnPrepared_def Let_def split: sum.splits bool.splits)
qed

lemma mainPutObjectUnPrepared_loop:
  assumes "s3verifyBuckets st = bucket # rest"
    and "loop = putObjectLoop env bucket (putObjectMessage env curTest) 0
             (scanBar (putObjectMessage env curTest) st, [])"
  shows "fst (mainPutObjectUnPrepared env curTest st) = fst loop"
    and "s3verifyObjects (snd (mainPutObjectUnPrepared env curTest st)) = s3verifyObjects (fst (snd loop))"
    and "targets (trace (snd (mainPutObjectUnPrepared env curTest st))) = targets (trace (fst (snd loop)))"
  by (simp_all add: mainPutObjectUnPrepared_eq [OF assms(1)] assms(2) Let_def scanBar_def
      printMessage_def targets_append)


lemma mainPutObjectPrepared_verdict:
  assumes "s3verifyBuckets st = bucket # rest"
  shows "fst (mainPutObjectPrepared env curTest st) = Inr True \<longleftrightarrow>
     stepSucceeds env bucket
       \<lparr>Key = ''s3verify/made/put/object'', Body = fst (randString env (world st))\<rparr>
       (snd (randString env (world st)))"
  using assms
  by (simp add: mainPutObjectPrepared_def stepSucceeds_def newBody_def exec_def scanBar_def
      printMessage_def closeResponse_def Let_def split_def newPutObjectReq_eq
      split: sum.splits option.splits)

lemma mainPutObjectPrepared_objects:
  assumes "s3verifyBuckets st = bucket # rest"
  shows "s3verifyObjects (snd (mainPutObjectPrepared env curTest st)) =
     (if fst (mainPutObjectPrepared env curTest st) = Inr True
      then s3verifyObjects st @
        [\<lparr>Key = ''s3verify/made/put/object'', Body = fst (randString env (world st))\<rparr>]
      else s3verifyObjects st)"
  using assms
  by (simp add: mainPutObjectPrepared_def newBody_def exec_def scanBar_def
      printMessage_def closeResponse_def Let_def split_def newPutObjectReq_eq
      split: sum.splits option.splits)



subsection \<open>The keys of the loop are distinct\<close>






lemma scanBar_observed:
  "s3verifyObjects (scanBar m st) = s3verifyObjects st"
  "targets (trace (scanBar m st)) = targets (trace st)"
  by (simp_all add: scanBar_def targets_append)

subsection \<open>The first failing iteration\<close>

lemma mainPutObjectUnPrepared_firstFailure:
  assumes buckets: "s3verifyBuckets st = bucket # rest"
    and failure: "firstFailure env bucket (putObjectMessage env curTest) k
        (scanBar (putObjectMessage env curTest) st, [])"
  shows "fst (mainPutObjectUnPrepared env curTest st) \<noteq> Inr True \<and>
     (\<exists>new. s3verifyObjects (snd (mainPutObjectUnPrepared env curTest st)) =
          s3verifyObjects st @ new \<and>
        length new = k - 1 \<and> map Key new = map loopKey [0..<k - 1]) \<and>
     targets (trace (snd (mainPutObjectUnPrepared env curTest st))) =
       targets (trace st) @ map (\<lambda>j. (''PUT'', Name bucket, loopKey j)) [0..<k]"
proof -
  let ?m = "putObjectMessage env curTest"
  let ?c = "(scanBar ?m st, [])"
  from failure have "0 < k"
    by (simp add: firstFailure_def)
  then obtain j where j: "k = Suc j"
    by (cases k) auto
  let ?before = "afterIterations env bucket ?m j ?c"
  let ?last = "putObjectIteration env bucket ?m j ?before"
  from failure have passed: "list_all (\<lambda>j. fst (putObjectIteration env bucket ?m j
                       (afterIterations env bucket ?m j ?c)) = Inr True) [0..<j]"
    and failed: "fst ?last \<noteq> Inr True"
    by (simp_all add: firstFailure_def j)
  have loop: "putObjectLoop env bucket ?m 0 ?c = ?last"
    using putObjectLoop_firstFailure [OF failure] by (simp add: j)
  obtain st' deferred where before: "?before = (st', deferred)"
    by (cases ?before)
  from afterIterations_objects [OF passed] obtain new
    where new: "s3verifyObjects st' = s3verifyObjects st @ new" "map Key new = map loopKey [0..<j]"
    by (auto simp: before scanBar_observed)
  from new(2) have len: "length new = j"
    by (metis length_map length_upt minus_nat.diff_0)
  have objects: "s3verifyObjects (fst (snd ?last)) = s3verifyObjects st @ new"
    using failed new(1) by (simp add: before putObjectIteration_objects)
  have "targets (trace st') = targets (trace st) @ map (\<lambda>j. (''PUT'', Name bucket, loopKey j)) [0..<j]"
    using afterIterations_targets [of env bucket ?m j ?c]
    by (simp add: before scanBar_observed)
  then have sent: "targets (trace (fst (snd ?last))) =
      targets (trace st) @ map (\<lambda>j. (''PUT'', Name bucket, loopKey j)) [0..<Suc j]"
    by (simp add: before putObjectIteration_targets)
  note main = mainPutObjectUnPrepared_loop [OF buckets loop [symmetric]]
  show ?thesis
    using failed objects len new(2) sent unfolding main j by (intro conjI exI [of _ new]) simp_all
qed

lemma mainPutObjectUnPrepared_counts:
  assumes buckets: "s3verifyBuckets st = bucket # rest"
  shows "\<exists>new. s3verifyObjects (snd (mainPutObjectUnPrepared env curTest st)) = s3verifyObjects st @ new \<and>
      map Key new = map loopKey [0..<length new] \<and> length new \<le> 101 \<and>
      (fst (mainPutObjectUnPrepared env curTest st) = Inr True \<longleftrightarrow> length new = 101) \<and>
      targets (trace (snd (mainPutObjectUnPrepared env curTest st))) =
        targets (trace st) @ map (\<lambda>j. (''PUT'', Name bucket, loopKey j))
          [0..<length new + (if fst (mainPutObjectUnPrepared env curTest st) = Inr True then 0 else 1)]"
proof -
  let ?m = "putObjectMessage env curTest"
  let ?c = "(scanBar ?m st, [])"
  let ?loop = "putObjectLoop env bucket ?m 0 ?c"
  note main = mainPutObjectUnPrepared_loop [OF buckets refl]
  from putObjectLoop_general [of 0 env bucket ?m ?c]
  obtain n new where n: "n \<le> 101"
    and new: "s3verifyObjects (fst (snd ?loop)) = s3verifyObjects st @ new"
      "map Key new = map loopKey [0..<n]"
    and sent: "targets (trace (fst (snd ?loop))) =
       targets (trace st) @ map (\<lambda>j. (''PUT'', Name bucket, loopKey j))
         [0..<n + (if fst ?loop = Inr True then 0 else 1)]"
    and verdict: "fst ?loop = Inr True \<longleftrightarrow> n = 101"
    by (auto simp: scanBar_observed)
  from new(2) have len: "length new = n"
    by (metis length_map length_upt minus_nat.diff_0)
  show ?thesis
    using n new sent verdict unfolding main len [symmetric]
    by (intro exI [of _ new]) simp
qed


subsection \<open>Runs of the stub\<close>

lemma stub_randString: "randString stub w = (replicate 60 CHR ''x'', w)"
  by (simp add: stub_def)

lemma stub_execRequest:
  "execRequest stub method req w =
     (case w of [] \<Rightarrow> (Inl (Error ''connection refused''), []) | answer # answers \<Rightarrow> (answer, answers))"
  by (simp add: stub_def)

lemma stub_putObjectVerify:
  "fst (putObjectVerify stub (stubResponse code content) StatusOK) = Inr None \<longleftrightarrow>
     code = 200 \<and> content = []"
  by (simp add: putObjectVerify_nil_iff verifyHeaderPutObject_eq verifyStatusPutObject_def
      verifyBodyPutObject_def ioutil_ReadAll_def stubResponse_def stubHeader_def stub_def StatusOK_def)

lemma stub_stepSucceeds:
  "stepSucceeds stub bucket object w =
     (case w of
        Inr res # answers \<Rightarrow> fst (putObjectVerify stub res StatusOK) = Inr None
      | _ \<Rightarrow> False)"
  by (simp add: stepSucceeds_def newPutObjectReq_eq stub_execRequest split: list.splits sum.splits)

lemma stub_iteration_world:
  "world (fst (snd (putObjectIteration stub bucket message i (st, deferred)))) = tl (world st)"
  by (simp add: putObjectIteration_def newBody_def exec_def scanBar_def printMessage_def
      Let_def split_def newPutObjectReq_eq stub_randString stub_execRequest
      split: sum.splits option.splits list.splits)

lemma stub_afterIterations_world:
  "world (fst (afterIterations stub bucket message k c)) = drop k (world (fst c))"
proof (induction k)
  case 0
  show ?case by simp
next
  case (Suc k)
  obtain st deferred where c: "afterIterations stub bucket message k c = (st, deferred)"
    by (cases "afterIterations stub bucket message k c")
  from Suc show ?case
    by (simp add: c stub_iteration_world drop_Suc tl_drop)
qed

lemma stub_iteration_verdict:
  "fst (putObjectIteration stub bucket message k (afterIterations stub bucket message k c)) = Inr True \<longleftrightarrow>
     (case drop k (world (fst c)) of
        Inr res # answers \<Rightarrow> fst (putObjectVerify stub res StatusOK) = Inr None
      | _ \<Rightarrow> False)"
proof -
  obtain st deferred where c: "afterIterations stub bucket message k c = (st, deferred)"
    by (cases "afterIterations stub bucket message k c")
  from stub_afterIterations_world [of bucket message k c] have "world st = drop k (world (fst c))"
    by (simp add: c)
  then show ?thesis
    by (simp add: c putObjectIteration_verdict stub_randString stub_stepSucceeds)
qed


lemma loopKeys_3:
  "map loopKey [0..<2] = [''s3verify/put/object/0'', ''s3verify/put/object/1'']"
  "map (\<lambda>j. (''PUT'', b, loopKey j)) [0..<3] =
     [(''PUT'', b, ''s3verify/put/object/0''), (''PUT'', b, ''s3verify/put/object/1''),
      (''PUT'', b, ''s3verify/put/object/2'')]"
proof -
  have keys: "loopKey 0 = ''s3verify/put/object/0''" "loopKey (Suc 0) = ''s3verify/put/object/1''"
    "loopKey (Suc (Suc 0)) = ''s3verify/put/object/2''"
    by (simp_all add: loopKey_def Itoa_def natDigits.simps digit_def)
  have "[0..<2] = [0, Suc 0]" "[0..<3] = [0, Suc 0, Suc (Suc 0)]"
    by (simp_all add: eval_nat_numeral)
  then show "map loopKey [0..<2] = [''s3verify/put/object/0'', ''s3verify/put/object/1'']"
    and "map (\<lambda>j. (''PUT'', b, loopKey j)) [0..<3] =
     [(''PUT'', b, ''s3verify/put/object/0''), (''PUT'', b, ''s3verify/put/object/1''),
      (''PUT'', b, ''s3verify/put/object/2'')]"
    by (simp_all add: keys)
qed

subsection \<open>The registry and the targets\<close>

text \<open>
  C3: with a bucket in the registry, the prepared step returns true exactly when build,
  transport and verification all succeed for its object, and it leaves
  \<^verbatim>\<open>s3verifyObjects\<close> with that object appended in that case and unchanged otherwise.
  The same holds for one iteration of the unprepared loop. If iteration \<open>k\<close>, counted
  from 1, is the first to fail, the unprepared step does not return true, exactly
  \<open>k - 1\<close> descriptors have been appended (those of the counters \<open>0, \<dots>, k - 2\<close>) and
  exactly \<open>k\<close> requests have gone to the transport, so no later iteration was started.
  In every run the appended descriptors are those of the counters below their number,
  there are 101 of them exactly when the step returns true, and a failed run has sent
  one request more than it has appended descriptors.
\<close>

theorem putObject_appends_iff_success:
  assumes "s3verifyBuckets st = bucket # rest"
  shows
    "(fst (mainPutObjectPrepared env curTest st) = Inr True \<longleftrightarrow>
        stepSucceeds env bucket
          \<lparr>Key = ''s3verify/made/put/object'', Body = fst (randString env (world st))\<rparr>
          (snd (randString env (world st)))) \<and>
     s3verifyObjects (snd (mainPutObjectPrepared env curTest st)) =
       (if stepSucceeds env bucket
             \<lparr>Key = ''s3verify/made/put/object'', Body = fst (randString env (world st))\<rparr>
             (snd (randString env (world st)))
        then s3verifyObjects st @
          [\<lparr>Key = ''s3verify/made/put/object'', Body = fst (randString env (world st))\<rparr>]
        else s3verifyObjects st) \<and>
     (fst (putObjectIteration env bucket message i (st', deferred)) = Inr True \<longleftrightarrow>
        stepSucceeds env bucket
          \<lparr>Key = loopKey i, Body = fst (randString env (world st'))\<rparr>
          (snd (randString env (world st')))) \<and>
     s3verifyObjects (fst (snd (putObjectIteration env bucket message i (st', deferred)))) =
       (if stepSucceeds env bucket
             \<lparr>Key = loopKey i, Body = fst (randString env (world st'))\<rparr>
             (snd (randString env (world st')))
        then s3verifyObjects st' @ [\<lparr>Key = loopKey i, Body = fst (randString env (world st'))\<rparr>]
        else s3verifyObjects st') \<and>
     (firstFailure env bucket (putObjectMessage env curTest) k
         (scanBar (putObjectMessage env curTest) st, []) \<longrightarrow>
        fst (mainPutObjectUnPrepared env curTest st) \<noteq> Inr True \<and>
        (\<exists>new. s3verifyObjects (snd (mainPutObjectUnPrepared env curTest st)) =
             s3verifyObjects st @ new \<and>
           length new = k - 1 \<and> map Key new = map loopKey [0..<k - 1]) \<and>
        targets (trace (snd (mainPutObjectUnPrepared env curTest st))) =
          targets (trace st) @ map (\<lambda>j. (''PUT'', Name bucket, loopKey j)) [0..<k]) \<and>
     (\<exists>new. s3verifyObjects (snd (mainPutObjectUnPrepared env curTest st)) =
          s3verifyObjects st @ new \<and>
        map Key new = map loopKey [0..<length new] \<and> length new \<le> 101 \<and>
        (fst (mainPutObjectUnPrepared env curTest st) = Inr True \<longleftrightarrow> length new = 101) \<and>
        targets (trace (snd (mainPutObjectUnPrepared env curTest st))) =
          targets (trace st) @ map (\<lambda>j. (''PUT'', Name bucket, loopKey j))
            [0..<length new +
               (if fst (mainPutObjectUnPrepared env curTest st) = Inr True then 0 else 1)])"
proof (intro conjI impI)
  show "fst (mainPutObjectPrepared env curTest st) = Inr True \<longleftrightarrow>
      stepSucceeds env bucket
        \<lparr>Key = ''s3verify/made/put/object'', Body = fst (randString env (world st))\<rparr>
        (snd (randString env (world st)))"
    using assms by (rule mainPutObjectPrepared_verdict)
  then show "s3verifyObjects (snd (mainPutObjectPrepared env curTest st)) =
       (if stepSucceeds env bucket
             \<lparr>Key = ''s3verify/made/put/object'', Body = fst (randString env (world st))\<rparr>
             (snd (randString env (world st)))
        then s3verifyObjects st @
          [\<lparr>Key = ''s3verify/made/put/object'', Body = fst (randString env (world st))\<rparr>]
        else s3verifyObjects st)"
    by (simp only: mainPutObjectPrepared_objects [OF assms])
  show iteration: "fst (putObjectIteration env bucket message i (st', deferred)) = Inr True \<longleftrightarrow>
        stepSucceeds env bucket
          \<lparr>Key = loopKey i, Body = fst (randString env (world st'))\<rparr>
          (snd (randString env (world st')))"
    by (rule putObjectIteration_verdict)
  then show "s3verifyObjects (fst (snd (putObjectIteration env bucket message i (st', deferred)))) =
       (if stepSucceeds env bucket
             \<lparr>Key = loopKey i, Body = fst (randString env (world st'))\<rparr>
             (snd (randString env (world st')))
        then s3verifyObjects st' @ [\<lparr>Key = loopKey i, Body = fst (randString env (world st'))\<rparr>]
        else s3verifyObjects st')"
    by (simp only: putObjectIteration_objects)
next
  assume "firstFailure env bucket (putObjectMessage env curTest) k
         (scanBar (putObjectMessage env curTest) st, [])"
  note failed = mainPutObjectUnPrepared_firstFailure [OF assms this]
  from failed show "fst (mainPutObjectUnPrepared env curTest st) \<noteq> Inr True"
    and "\<exists>new. s3verifyObjects (snd (mainPutObjectUnPrepared env curTest st)) =
             s3verifyObjects st @ new \<and>
           length new = k - 1 \<and> map Key new = map loopKey [0..<k - 1]"
    and "targets (trace (snd (mainPutObjectUnPrepared env curTest st))) =
          targets (trace st) @ map (\<lambda>j. (''PUT'', Name bucket, loopKey j)) [0..<k]"
    by blast+
next
  from assms show "\<exists>new. s3verifyObjects (snd (mainPutObjectUnPrepared env curTest st)) =
          s3verifyObjects st @ new \<and>
        map Key new = map loopKey [0..<length new] \<and> length new \<le> 101 \<and>
        (fst (mainPutObjectUnPrepared env curTest st) = Inr True \<longleftrightarrow> length new = 101) \<and>
        targets (trace (snd (mainPutObjectUnPrepared env curTest st))) =
          targets (trace st) @ map (\<lambda>j. (''PUT'', Name bucket, loopKey j))
            [0..<length new +
               (if fst (mainPutObjectUnPrepared env curTest st) = Inr True then 0 else 1)]"
    by (rule mainPutObjectUnPrepared_counts)
qed

theorem putObject_appends_iff_success_witness:
  "s3verifyBuckets thirdFails = \<lparr>Name = ''b1''\<rparr> # [\<lparr>Name = ''b2''\<rparr>] \<and>
   firstFailure stub \<lparr>Name = ''b1''\<rparr> (putObjectMessage stub 1) 3
     (scanBar (putObjectMessage stub 1) thirdFails, []) \<and>
   fst (mainPutObjectUnPrepared stub 1 thirdFails) \<noteq> Inr True \<and>
   map Key (s3verifyObjects (snd (mainPutObjectUnPrepared stub 1 thirdFails))) =
     [''s3verify/put/object/0'', ''s3verify/put/object/1''] \<and>
   targets (trace (snd (mainPutObjectUnPrepared stub 1 thirdFails))) =
     [(''PUT'', ''b1'', ''s3verify/put/object/0''), (''PUT'', ''b1'', ''s3verify/put/object/1''),
      (''PUT'', ''b1'', ''s3verify/put/object/2'')] \<and>
   fst (mainPutObjectPrepared stub 1 thirdFails) = Inr True \<and>
   map Key (s3verifyObjects (snd (mainPutObjectPrepared stub 1 thirdFails))) =
     [''s3verify/made/put/object''] \<and>
   fst (mainPutObjectPrepared stub 1 forbidden) \<noteq> Inr True \<and>
   s3verifyObjects (snd (mainPutObjectPrepared stub 1 forbidden)) = []"
proof -
  let ?b = "\<lparr>Name = ''b1''\<rparr>"
  have buckets: "s3verifyBuckets thirdFails = ?b # [\<lparr>Name = ''b2''\<rparr>]"
    by (simp add: thirdFails_def stubState_def twoBuckets_def)
  have buckets': "s3verifyBuckets forbidden = ?b # [\<lparr>Name = ''b2''\<rparr>]"
    by (simp add: forbidden_def stubState_def twoBuckets_def)
  have start: "s3verifyObjects thirdFails = []" "trace thirdFails = []"
    "world thirdFails =
      [Inr (stubResponse 200 []), Inr (stubResponse 200 []), Inr (stubResponse 403 [])]"
    "s3verifyObjects forbidden = []" "world forbidden = [Inr (stubResponse 403 [])]"
    by (simp_all add: thirdFails_def forbidden_def stubState_def)
  have answers: "world (fst (scanBar (putObjectMessage stub 1) thirdFails, [])) =
      [Inr (stubResponse 200 []), Inr (stubResponse 200 []), Inr (stubResponse 403 [])]"
    by (simp add: start scanBar_def)
  have failure: "firstFailure stub ?b (putObjectMessage stub 1) 3
      (scanBar (putObjectMessage stub 1) thirdFails, [])"
    unfolding firstFailure_def stub_iteration_verdict answers
    by (simp add: eval_nat_numeral stub_putObjectVerify)
  have passes: "stepSucceeds stub ?b object (snd (randString stub (world thirdFails)))" for object
    by (simp add: stub_stepSucceeds stub_randString start stub_putObjectVerify)
  have fails: "\<not> stepSucceeds stub ?b object (snd (randString stub (world forbidden)))" for object
    by (simp add: stub_stepSucceeds stub_randString start stub_putObjectVerify)
  note run = putObject_appends_iff_success [OF buckets, where env = stub and curTest = 1 and k = 3
      and message = "[]" and i = 0 and st' = thirdFails and deferred = "[]"]
  note run' = putObject_appends_iff_success [OF buckets', where env = stub and curTest = 1 and k = 3
      and message = "[]" and i = 0 and st' = thirdFails and deferred = "[]"]
  from run failure obtain new where
    "fst (mainPutObjectUnPrepared stub 1 thirdFails) \<noteq> Inr True"
    "s3verifyObjects (snd (mainPutObjectUnPrepared stub 1 thirdFails)) = s3verifyObjects thirdFails @ new"
    "map Key new = map loopKey [0..<3 - 1]"
    "targets (trace (snd (mainPutObjectUnPrepared stub 1 thirdFails))) =
       targets (trace thirdFails) @ map (\<lambda>j. (''PUT'', Name ?b, loopKey j)) [0..<3]"
    by blast
  then have unprepared: "fst (mainPutObjectUnPrepared stub 1 thirdFails) \<noteq> Inr True"
    "map Key (s3verifyObjects (snd (mainPutObjectUnPrepared stub 1 thirdFails))) =
       [''s3verify/put/object/0'', ''s3verify/put/object/1'']"
    "targets (trace (snd (mainPutObjectUnPrepared stub 1 thirdFails))) =
     [(''PUT'', ''b1'', ''s3verify/put/object/0''), (''PUT'', ''b1'', ''s3verify/put/object/1''),
      (''PUT'', ''b1'', ''s3verify/put/object/2'')]"
    by (simp_all add: start loopKeys_3)
  from run passes have prepared: "fst (mainPutObjectPrepared stub 1 thirdFails) = Inr True"
    "map Key (s3verifyObjects (snd (mainPutObjectPrepared stub 1 thirdFails))) =
       [''s3verify/made/put/object'']"
    by (simp_all add: start)
  from run' fails have refused: "fst (mainPutObjectPrepared stub 1 forbidden) \<noteq> Inr True"
    "s3verifyObjects (snd (mainPutObjectPrepared stub 1 forbidden)) = []"
    by (simp_all add: start)
  from buckets failure unprepared prepared refused show ?thesis
    by blast
qed




end
